theory Spec2Isabelle
  imports Main
begin

section \<open>The manual page of dotland (src/pages/manual.tsx)\<close>

text \<open>
  A shallow embedding of the page component \<open>Manual\<close>. JavaScript strings are
  \<^typ>\<open>string\<close>; a value that may be \<open>undefined\<close> or \<open>null\<close> is an
  \<^typ>\<open>'a option\<close> with \<^term>\<open>None\<close> for the missing value. The state kept by
  \<open>useState\<close> is a record that every handler takes and returns; calls of the routing
  framework (\<open>push\<close>, \<open>replace\<close>) and of the DOM are returned as values.
\<close>

subsection \<open>JavaScript library functions\<close>

text \<open>\<open>xs[0]\<close>: the first element, \<open>undefined\<close> on an empty array.\<close>

definition at0 :: "'a list \<Rightarrow> 'a option" where
  "at0 xs = (case xs of [] \<Rightarrow> None | x # _ \<Rightarrow> Some x)"

text \<open>\<open>xs[i]\<close> for an integer \<open>i\<close>: \<open>undefined\<close> outside \<open>0 .. length - 1\<close>.\<close>

definition jsAt :: "'a list \<Rightarrow> int \<Rightarrow> 'a option" where
  "jsAt xs i = (if 0 \<le> i \<and> i < int (length xs) then Some (xs ! nat i) else None)"

text \<open>\<open>Array.prototype.join\<close> on an array of strings.\<close>

fun join :: "string \<Rightarrow> string list \<Rightarrow> string" where
  "join sep [] = []"
| "join sep [x] = x"
| "join sep (x # y # ys) = x @ sep @ join sep (y # ys)"

text \<open>\<open>String.prototype.endsWith\<close> and \<open>startsWith\<close>.\<close>

definition endsWith :: "string \<Rightarrow> string \<Rightarrow> bool" where
  "endsWith s suf = (length suf \<le> length s \<and> drop (length s - length suf) s = suf)"

definition startsWith :: "string \<Rightarrow> string \<Rightarrow> bool" where
  "startsWith s pre = (take (length pre) s = pre)"

text \<open>
  \<open>Array.prototype.findIndex\<close>: the index of the first element that satisfies the
  predicate, \<open>-1\<close> when there is none.
\<close>

fun findIndexFrom :: "('a \<Rightarrow> bool) \<Rightarrow> 'a list \<Rightarrow> int \<Rightarrow> int" where
  "findIndexFrom P [] i = - 1"
| "findIndexFrom P (x # xs) i = (if P x then i else findIndexFrom P xs (i + 1))"

definition findIndex :: "('a \<Rightarrow> bool) \<Rightarrow> 'a list \<Rightarrow> int" where
  "findIndex P xs = findIndexFrom P xs 0"

text \<open>\<open>ToString\<close> of a value that is a string or \<open>undefined\<close>.\<close>

definition jsToString :: "string option \<Rightarrow> string" where
  "jsToString v = (case v of None \<Rightarrow> ''undefined'' | Some s \<Rightarrow> s)"

subsection \<open>The version manifest and the name parser\<close>

text \<open>
  \<open>versions.json\<close> is imported as \<open>versionMeta\<close>; the file itself is not part of the
  sources at hand, so the manifest is a parameter of every function that reads it. Its
  shape is the one the page uses: \<open>cli\<close> and \<open>std\<close> are arrays of strings and
  \<open>cli_to_std\<close> maps a CLI version to a std version. The field \<open>cli_to_std\<close> of the
  record holds the keys of the JSON object itself, \<^term>\<open>None\<close> where the object has no
  such key; the properties that a lookup also finds on \<open>Object.prototype\<close> are not among
  them.
\<close>

record version_meta =
  cli :: "string list"
  std :: "string list"
  cli_to_std :: "string \<rightharpoonup> string"

text \<open>
  Modelled from the spec: \<open>parseNameVersion\<close> of \<open>util/registry_utils.ts\<close>, which is
  imported by the page and is not among the sources. The spec says that the first route
  segment "is parsed for an embedded name@version form" and that the version is
  "extracted". The model splits at the first \<open>@\<close>: the name is what stands before it, the
  version what stands after it, and the version is empty when there is no \<open>@\<close>.
\<close>

definition parseNameVersion :: "string \<Rightarrow> string \<times> string" where
  "parseNameVersion nameVersion =
     (takeWhile (\<lambda>c. c \<noteq> CHR ''@'') nameVersion,
      drop 1 (dropWhile (\<lambda>c. c \<noteq> CHR ''@'') nameVersion))"

subsection \<open>Route interpretation (lines 44 to 49)\<close>

record route =
  version :: "string option"
  path :: string

text \<open>
  The \<open>useMemo\<close> that derives \<open>version\<close> and \<open>path\<close> from \<open>params.rest\<close>. The parser is
  a parameter, so that what is proved for every parser holds for the real one.
  \<open>a || b\<close> on strings takes \<open>b\<close> exactly when \<open>a\<close> is empty.
\<close>

definition interpretRoute ::
  "(string \<Rightarrow> string \<times> string) \<Rightarrow> version_meta \<Rightarrow> string list option \<Rightarrow> route" where
  "interpretRoute parse versionMeta rest =
     (let segments = (case rest of None \<Rightarrow> [] | Some r \<Rightarrow> r);
          identifier = at0 segments;
          pathParts = drop 1 segments;
          p = (if length pathParts = 0 then [] else ''/'' @ join ''/'' pathParts);
          parsed = snd (parse (case identifier of None \<Rightarrow> [] | Some i \<Rightarrow> i));
          v = (if parsed \<noteq> [] then Some parsed else at0 (cli versionMeta))
      in \<lparr>version = v, path = (if p \<noteq> [] then p else ''/introduction'')\<rparr>)"

definition routeInterpreter :: "version_meta \<Rightarrow> string list option \<Rightarrow> route" where
  "routeInterpreter versionMeta rest = interpretRoute parseNameVersion versionMeta rest"

subsection \<open>The redirect of paths that end in .md (lines 51 to 62)\<close>

text \<open>
  \<open>path.replace(/\.md$/, "")\<close>: the pattern matches only at the end of the string and
  the replacement is empty, so a trailing \<open>.md\<close> is cut off and any other string is
  returned as it is.
\<close>

definition replaceMdSuffix :: "string \<Rightarrow> string" where
  "replaceMdSuffix p = (if endsWith p ''.md'' then take (length p - 3) p else p)"

text \<open>
  The template \<open>version ? `@${version}` : ""\<close> that the redirect, the document links
  and the table of contents share; a version is truthy when it is defined and not empty.
\<close>

definition atVersion :: "string option \<Rightarrow> string" where
  "atVersion v = (case v of None \<Rightarrow> [] | Some s \<Rightarrow> if s \<noteq> [] then ''@'' @ s else [])"

definition redirectURL :: "string option \<Rightarrow> string \<Rightarrow> string" where
  "redirectURL v p = ''/manual'' @ atVersion v @ replaceMdSuffix p"

subsection \<open>Table of contents and page list (lines 111 to 135)\<close>

text \<open>
  \<open>TableOfContents\<close> is declared in \<open>util/manual_utils.ts\<close>. The page reads it with
  \<open>Object.entries\<close>, so it is modelled as the list of its entries in the order in which
  \<open>Object.entries\<close> yields them; \<open>children\<close> is optional.
\<close>

record toc_entry =
  name :: string
  children :: "(string \<times> string) list option"

type_synonym table_of_contents = "(string \<times> toc_entry) list"

record page =
  page_path :: string
  page_name :: string

record state =
  showSidebar :: bool
  tableOfContents :: "table_of_contents option"
  content :: "string option"
  pageIndex :: int
  pageList :: "page list"
  pageTitle :: string
  isOpen :: bool
  initialQuery :: "string option"

text \<open>The initial values handed to \<open>useState\<close>.\<close>

definition initialState :: state where
  "initialState =
     \<lparr>showSidebar = False, tableOfContents = None, content = None, pageIndex = 0,
      pageList = [], pageTitle = [], isOpen = False, initialQuery = None\<rparr>"

text \<open>The inner \<open>map\<close> over the children: each child is pushed onto \<open>tempList\<close>.\<close>

fun pushChildren :: "string \<Rightarrow> (string \<times> string) list \<Rightarrow> page list \<Rightarrow> page list" where
  "pushChildren slug [] tempList = tempList"
| "pushChildren slug ((childSlug, nm) # cs) tempList =
     pushChildren slug cs
       (tempList @ [\<lparr>page_path = ''/manual/'' @ slug @ ''/'' @ childSlug, page_name = nm\<rparr>])"

text \<open>The outer \<open>forEach\<close> over the entries.\<close>

fun forEachEntry :: "table_of_contents \<Rightarrow> page list \<Rightarrow> page list" where
  "forEachEntry [] tempList = tempList"
| "forEachEntry ((slug, entry) # es) tempList =
     (let pushed = tempList @ [\<lparr>page_path = ''/manual/'' @ slug, page_name = name entry\<rparr>]
      in forEachEntry es
           (case children entry of None \<Rightarrow> pushed | Some cs \<Rightarrow> pushChildren slug cs pushed))"

definition flattenTOC :: "table_of_contents \<Rightarrow> page list" where
  "flattenTOC toc = forEachEntry toc []"

text \<open>The effect on \<open>[tableOfContents, path]\<close>: nothing happens while the table is null.\<close>

definition pageListEffect :: "string \<Rightarrow> state \<Rightarrow> state" where
  "pageListEffect p st =
     (case tableOfContents st of
        None \<Rightarrow> st
      | Some toc \<Rightarrow>
          (let tempList = flattenTOC toc
           in st\<lparr>pageList := tempList,
                 pageIndex := findIndex (\<lambda>pg. page_path pg = ''/manual'' @ p) tempList\<rparr>))"

text \<open>
  What the spec says a table of contents contributes, entry by entry: the page of the
  entry, then the pages of its children.
\<close>

definition specEntryPages :: "string \<times> toc_entry \<Rightarrow> page list" where
  "specEntryPages e =
     \<lparr>page_path = ''/manual/'' @ fst e, page_name = name (snd e)\<rparr>
     # map (\<lambda>c. \<lparr>page_path = ''/manual/'' @ fst e @ ''/'' @ fst c, page_name = snd c\<rparr>)
         (case children (snd e) of None \<Rightarrow> [] | Some cs \<Rightarrow> cs)"

definition specPageList :: "table_of_contents \<Rightarrow> page list" where
  "specPageList toc = concat (map specEntryPages toc)"

subsection \<open>Loading the content (lines 147 to 168)\<close>

datatype error = NetworkFailure | StatusError int | BodyFailure

text \<open>A response: its status and what \<open>res.text()\<close> settles to.\<close>

record response =
  status :: int
  text_body :: "error + string"

definition notFoundMessage :: string where
  "notFoundMessage =
     ''# 404 - Not Found'' @ [CHR 0x0A] @ ''Whoops, the page does not seem to exist.''"

text \<open>The first \<open>then\<close>: a status other than 200 throws, otherwise the body is read.\<close>

definition onResponse :: "response \<Rightarrow> error + string" where
  "onResponse res = (if status res \<noteq> 200 then Inl (StatusError (status res)) else text_body res)"

text \<open>
  The whole chain on what \<open>fetch\<close> settles to: the content is reset to null, then
  \<open>setContent\<close> stores the body, or \<open>catch\<close> stores the fixed message.
\<close>

definition contentEffect :: "error + response \<Rightarrow> state \<Rightarrow> state" where
  "contentEffect fetched st =
     (let loading = st\<lparr>content := None\<rparr>
      in case (case fetched of Inl e \<Rightarrow> Inl e | Inr res \<Rightarrow> onResponse res) of
           Inr body \<Rightarrow> loading\<lparr>content := Some body\<rparr>
         | Inl e \<Rightarrow> loading\<lparr>content := Some notFoundMessage\<rparr>)"

subsection \<open>Placeholder substitution (lines 223 to 226 and 500 to 503)\<close>

text \<open>
  \<open>String.prototype.replace\<close> with a string as replacement expands the patterns
  \<open>$$\<close>, \<open>$&\<close>, \<open>$`\<close> and \<open>$'\<close> of the replacement at every match (GetSubstitution of
  ECMA-262). The regular expressions of the page have no capture groups, so \<open>$1\<close> and
  \<open>$<name>\<close> stay as they are written.
\<close>

fun getSubstitution :: "string \<Rightarrow> string \<Rightarrow> string \<Rightarrow> string \<Rightarrow> string" where
  "getSubstitution matched preceding following [] = []"
| "getSubstitution matched preceding following [c] = [c]"
| "getSubstitution matched preceding following (c # d # template) =
     (if c = CHR ''$'' \<and> d = CHR ''$''
        then CHR ''$'' # getSubstitution matched preceding following template
      else if c = CHR ''$'' \<and> d = CHR ''&''
        then matched @ getSubstitution matched preceding following template
      else if c = CHR ''$'' \<and> d = CHR 0x60
        then preceding @ getSubstitution matched preceding following template
      else if c = CHR ''$'' \<and> d = CHR 0x27
        then following @ getSubstitution matched preceding following template
      else c # getSubstitution matched preceding following (d # template))"

text \<open>
  \<open>s.replace(/pat/g, repl)\<close> for a pattern that is a non-empty literal: the string is
  scanned from the left, every match is replaced by its substitution and the scan goes on
  behind the match. \<open>preceding\<close> is the part of the string already scanned.
\<close>

function replaceAllFrom :: "string \<Rightarrow> string \<Rightarrow> string \<Rightarrow> string \<Rightarrow> string" where
  "replaceAllFrom pat repl preceding [] = []"
| "replaceAllFrom pat repl preceding (c # cs) =
     (if pat \<noteq> [] \<and> startsWith (c # cs) pat
      then getSubstitution pat preceding (drop (length pat) (c # cs)) repl
           @ replaceAllFrom pat repl (preceding @ pat) (drop (length pat) (c # cs))
      else c # replaceAllFrom pat repl (preceding @ [c]) cs)"
  by pat_completeness auto
termination
  by (relation "measure (\<lambda>(pat, repl, preceding, s). length s)") auto

definition replaceAll :: "string \<Rightarrow> string \<Rightarrow> string \<Rightarrow> string" where
  "replaceAll pat repl s = replaceAllFrom pat repl [] s"

text \<open>A value that a property lookup may find: a string, or a function given by its name.\<close>

datatype jsvalue = JString string | JFunction string

text \<open>
  Lines 223 to 226, for any property lookup: \<open>lookup key\<close> is what
  \<open>cli_to_std[key]\<close> yields and \<open>std0\<close> is \<open>std[0]\<close>. The values of the lookup are of
  any type, since a plain object finds the strings of the JSON file under its own keys
  and, under keys such as \<open>constructor\<close> or \<open>hasOwnProperty\<close>, the properties inherited
  from \<open>Object.prototype\<close>, which are functions. \<open>??\<close> takes \<open>std[0]\<close> only when the
  lookup yields \<open>undefined\<close>.
\<close>

definition stdVersionWith ::
  "(string \<Rightarrow> 'val option) \<Rightarrow> 'val option \<Rightarrow> string option \<Rightarrow> 'val option" where
  "stdVersionWith lookup std0 v =
     (if v = None then std0
      else (case lookup (case v of None \<Rightarrow> [] | Some s \<Rightarrow> s) of
              None \<Rightarrow> std0
            | Some x \<Rightarrow> Some x))"

text \<open>
  The std version read from the keys of the manifest itself, the strings of the JSON
  file. A version that names an inherited property is outside this instance.
\<close>

definition stdVersion :: "version_meta \<Rightarrow> string option \<Rightarrow> string option" where
  "stdVersion versionMeta v =
     stdVersionWith (cli_to_std versionMeta) (at0 (std versionMeta)) v"

text \<open>
  The \<open>source\<close> handed to the Markdown component, with the std version of the manifest's
  own keys. A function found under an inherited key would be called by \<open>replace\<close> at
  every match of \<open>$STD_VERSION\<close>; that call is not modelled.
\<close>

definition markdownSource :: "version_meta \<Rightarrow> string option \<Rightarrow> string \<Rightarrow> string" where
  "markdownSource versionMeta v body =
     replaceAll ''$CLI_VERSION'' (jsToString v)
       (replaceAll ''$STD_VERSION'' (jsToString (stdVersion versionMeta v)) body)"

subsection \<open>The search overlay (lines 172 to 214)\<close>

datatype dom_effect = PreventDefault | FocusSearchInput

definition onOpen :: "state \<Rightarrow> state \<times> dom_effect list" where
  "onOpen st = (st\<lparr>isOpen := True\<rparr>, [FocusSearchInput])"

definition onClose :: "state \<Rightarrow> state" where
  "onClose st = st\<lparr>isOpen := False\<rparr>"

definition onInput :: "string \<Rightarrow> state \<Rightarrow> state" where
  "onInput key st = st\<lparr>isOpen := True, initialQuery := Some key\<rparr>"

text \<open>The \<open>keypress\<close> listener of the window; \<open>key\<close> is \<open>e.key\<close>.\<close>

definition onPress :: "string \<Rightarrow> state \<Rightarrow> state \<times> dom_effect list" where
  "onPress key st =
     (if \<not> isOpen st then
        (if key = ''/'' \<or> key = ''s''
         then (case onOpen st of (st', fx) \<Rightarrow> (st', PreventDefault # fx))
         else (st, []))
      else (st, []))"

subsection \<open>Navigation (lines 216 to 221)\<close>

text \<open>\<open>push\<close> and \<open>replace\<close> of the router, with the route pattern and the URL.\<close>

datatype navigation = Push string string | Replace string string

definition gotoVersion :: "string \<Rightarrow> string \<Rightarrow> navigation" where
  "gotoVersion p newVersion =
     Push ''/[...rest]'' (''/manual'' @ (if newVersion \<noteq> [] then ''@'' @ newVersion else []) @ p)"

subsection \<open>The component\<close>

text \<open>
  One render of \<open>Manual\<close>. The hooks that a render registers are listed in the order of
  the source; the early return of the redirect comes before all of them. The article is
  rendered when \<open>content\<close> is truthy, the grey skeleton otherwise.
\<close>

datatype hook =
  RouteEvents | SidebarScroll | LoadTableOfContents | BuildPageList | LoadContent
  | SearchKeyboardEvents | KeyPress

record article =
  source :: string
  displayURL :: string
  baseURL :: string
  prevLink :: "page option"
  nextLink :: "page option"

datatype markup = EmptyFragment | Skeleton | Article article

record render =
  navigated :: "navigation option"
  hooks :: "hook list"
  markup :: markup

definition ManualWith ::
  "(string \<Rightarrow> string \<times> string) \<Rightarrow> version_meta \<Rightarrow> string list option \<Rightarrow> state \<Rightarrow> render" where
  "ManualWith parse versionMeta rest st =
     (let r = interpretRoute parse versionMeta rest; v = version r; p = path r
      in if endsWith p ''.md''
         then \<lparr>navigated = Some (Replace ''/[...rest]'' (redirectURL v p)),
               hooks = [], markup = EmptyFragment\<rparr>
         else \<lparr>navigated = None,
               hooks = [RouteEvents, SidebarScroll, LoadTableOfContents, BuildPageList,
                        LoadContent, SearchKeyboardEvents, KeyPress],
               markup =
                 (case content st of
                    None \<Rightarrow> Skeleton
                  | Some c \<Rightarrow>
                      if c = [] then Skeleton
                      else Article
                        \<lparr>source = markdownSource versionMeta v c,
                         displayURL = ''https://deno.land/manual'' @ atVersion v @ p,
                         baseURL = ''https://deno.land/manual'' @ atVersion v,
                         prevLink = jsAt (pageList st) (pageIndex st - 1),
                         nextLink = jsAt (pageList st) (pageIndex st + 1)\<rparr>)\<rparr>)"

definition Manual :: "version_meta \<Rightarrow> string list option \<Rightarrow> state \<Rightarrow> render" where
  "Manual versionMeta rest st = ManualWith parseNameVersion versionMeta rest st"

section \<open>Auxiliary facts\<close>

subsection \<open>The name parser\<close>

lemma parseNameVersion_at:
  "CHR ''@'' \<notin> set n \<Longrightarrow> parseNameVersion (n @ ''@'' @ v) = (n, v)"
  by (induction n) (auto simp: parseNameVersion_def)

lemma parseNameVersion_plain:
  "CHR ''@'' \<notin> set s \<Longrightarrow> parseNameVersion s = (s, [])"
  by (induction s) (auto simp: parseNameVersion_def)

subsection \<open>The page list\<close>

lemma pushChildren_append:
  "pushChildren slug cs acc =
     acc @ map (\<lambda>c. \<lparr>page_path = ''/manual/'' @ slug @ ''/'' @ fst c, page_name = snd c\<rparr>) cs"
  by (induction cs arbitrary: acc) auto

lemma forEachEntry_append: "forEachEntry toc acc = acc @ specPageList toc"
proof (induction toc arbitrary: acc)
  case Nil
  show ?case by (simp add: specPageList_def)
next
  case (Cons e es)
  obtain slug entry where e: "e = (slug, entry)" by (cases e)
  show ?case
    by (simp add: e Cons.IH pushChildren_append specPageList_def specEntryPages_def
        split: option.splits)
qed

lemma flattenTOC_spec: "flattenTOC toc = specPageList toc"
  by (simp add: flattenTOC_def forEachEntry_append)

text \<open>
  With the index \<open>-1\<close> the element before it is out of range, and the element behind it
  is the first page of the list.
\<close>

lemma links_at_minus_one:
  "jsAt xs (- 1 - 1) = None \<and> jsAt xs (- 1 + 1) = at0 xs"
  by (cases xs) (simp_all add: jsAt_def at0_def)

subsection \<open>Substitution\<close>

lemma getSubstitution_plain:
  "CHR ''$'' \<notin> set repl \<Longrightarrow> getSubstitution m b a repl = repl"
  by (induction m b a repl rule: getSubstitution.induct) auto

lemma replaceAllFrom_no_dollar:
  "CHR ''$'' \<notin> set s \<Longrightarrow> replaceAllFrom (CHR ''$'' # pat) repl b s = s"
  by (induction s arbitrary: b) (auto simp: startsWith_def)

text \<open>
  The first occurrence of a placeholder behind text without \<open>$\<close> is replaced by the
  substitution of the replacement, and the scan goes on behind it.
\<close>

lemma replaceAllFrom_first_match:
  "CHR ''$'' \<notin> set front \<Longrightarrow>
   replaceAllFrom (CHR ''$'' # pat) repl b (front @ (CHR ''$'' # pat) @ back) =
     front @ getSubstitution (CHR ''$'' # pat) (b @ front) back repl
     @ replaceAllFrom (CHR ''$'' # pat) repl (b @ front @ CHR ''$'' # pat) back"
  by (induction front arbitrary: b) (auto simp: startsWith_def)

lemma notFoundMessage_no_dollar: "CHR ''$'' \<notin> set notFoundMessage"
  by (simp add: notFoundMessage_def)

lemma markdownSource_no_dollar:
  "CHR ''$'' \<notin> set body \<Longrightarrow> markdownSource versionMeta v body = body"
  by (simp add: markdownSource_def replaceAll_def replaceAllFrom_no_dollar)

subsection \<open>Paths that end in .md\<close>

lemma endsWith_md_split:
  assumes "endsWith p ''.md''"
  shows "p = take (length p - 3) p @ ''.md''"
proof -
  have "drop (length p - 3) p = ''.md''"
    using assms by (simp add: endsWith_def numeral_3_eq_3)
  then show ?thesis
    by (metis append_take_drop_id)
qed

section \<open>Claims\<close>

text \<open>
  C1. The page list that the effect stores is the flattened table of contents. An entry
  \<open>(slug, entry)\<close> of the table contributes the page \<open>/manual/slug\<close> with the name of
  the entry, directly followed by one page \<open>/manual/slug/childSlug\<close> for each of its
  children in their order; the pages of the entries before it stand before, those of the
  entries behind it stand behind. The table
  \<open>{a: {name: "A", children: {x: "X"}}, b: {name: "B"}}\<close> gives the three pages
  \<open>/manual/a\<close>, \<open>/manual/a/x\<close>, \<open>/manual/b\<close>.
\<close>

theorem flatten_toc:
  "pageList (pageListEffect p (st\<lparr>tableOfContents := Some toc\<rparr>)) = flattenTOC toc
   \<and> flattenTOC (front @ [(slug, entry)] @ back) =
       flattenTOC front
       @ [\<lparr>page_path = ''/manual/'' @ slug, page_name = name entry\<rparr>]
       @ map (\<lambda>c. \<lparr>page_path = ''/manual/'' @ slug @ ''/'' @ fst c, page_name = snd c\<rparr>)
           (case children entry of None \<Rightarrow> [] | Some cs \<Rightarrow> cs)
       @ flattenTOC back
   \<and> flattenTOC [] = []
   \<and> flattenTOC [(''a'', \<lparr>name = ''A'', children = Some [(''x'', ''X'')]\<rparr>),
                  (''b'', \<lparr>name = ''B'', children = None\<rparr>)] =
       [\<lparr>page_path = ''/manual/a'', page_name = ''A''\<rparr>,
        \<lparr>page_path = ''/manual/a/x'', page_name = ''X''\<rparr>,
        \<lparr>page_path = ''/manual/b'', page_name = ''B''\<rparr>]"
  by (simp add: pageListEffect_def flattenTOC_spec specPageList_def specEntryPages_def Let_def)

text \<open>
  C2. The claim is that no link is rendered when the index is \<open>-1\<close>. The code renders
  the next link all the same: for the table \<open>{a: {name: "A"}}\<close> and the route
  \<open>/manual/missing\<close> the effect stores the index \<open>-1\<close>, the previous link is absent,
  and the next link is \<open>pageList[0]\<close>, the page \<open>/manual/a\<close>.
\<close>

theorem next_link_without_index:
  "pageIndex (pageListEffect ''/missing''
      (initialState\<lparr>tableOfContents := Some [(''a'', \<lparr>name = ''A'', children = None\<rparr>)],
                     content := Some ''text''\<rparr>)) = - 1
   \<and> markup (Manual \<lparr>cli = [''v1.20.1''], std = [''0.120.0''], cli_to_std = Map.empty\<rparr>
        (Some [''manual'', ''missing''])
        (pageListEffect ''/missing''
          (initialState\<lparr>tableOfContents := Some [(''a'', \<lparr>name = ''A'', children = None\<rparr>)],
                         content := Some ''text''\<rparr>)))
     = Article \<lparr>source = ''text'',
         displayURL = ''https://deno.land/manual@v1.20.1/missing'',
         baseURL = ''https://deno.land/manual@v1.20.1'',
         prevLink = None,
         nextLink = Some \<lparr>page_path = ''/manual/a'', page_name = ''A''\<rparr>\<rparr>"
  by (simp add: pageListEffect_def initialState_def flattenTOC_def findIndex_def Manual_def
      ManualWith_def interpretRoute_def parseNameVersion_def at0_def endsWith_def
      markdownSource_def replaceAll_def startsWith_def atVersion_def jsAt_def Let_def)

text \<open>
  C3. A response whose status is not 200 leaves the fixed not-found message as content,
  whatever its body is, and so does a fetch that fails. The message has no placeholder,
  so the source of the rendered article is the message itself.
\<close>

theorem content_not_found:
  "(status res \<noteq> 200 \<longrightarrow> content (contentEffect (Inr res) st) = Some notFoundMessage)
   \<and> content (contentEffect (Inl e) st) = Some notFoundMessage
   \<and> (status res \<noteq> 200 \<and> \<not> endsWith (path (interpretRoute parse versionMeta rest)) ''.md'' \<longrightarrow>
        (\<exists>a. markup (ManualWith parse versionMeta rest (contentEffect (Inr res) st)) = Article a
            \<and> source a = notFoundMessage))"
  using markdownSource_no_dollar [OF notFoundMessage_no_dollar]
  by (simp add: contentEffect_def onResponse_def ManualWith_def Let_def)
    (simp add: notFoundMessage_def)

theorem content_not_found_witness:
  "content (contentEffect
      (Inr \<lparr>status = 404, text_body = Inr ''<html>no such file</html>''\<rparr>) initialState)
     = Some notFoundMessage
   \<and> (\<exists>a. markup (ManualWith parseNameVersion
          \<lparr>cli = [''v1.20.1''], std = [''0.120.0''], cli_to_std = Map.empty\<rparr>
          (Some [''manual'', ''missing''])
          (contentEffect
            (Inr \<lparr>status = 404, text_body = Inr ''<html>no such file</html>''\<rparr>) initialState))
        = Article a \<and> source a = notFoundMessage)"
  using content_not_found [where
      res = "\<lparr>status = 404, text_body = Inr ''<html>no such file</html>''\<rparr>"
      and st = initialState and parse = parseNameVersion
      and versionMeta = "\<lparr>cli = [''v1.20.1''], std = [''0.120.0''], cli_to_std = Map.empty\<rparr>"
      and rest = "Some [''manual'', ''missing'']" and e = NetworkFailure]
  by (simp add: interpretRoute_def endsWith_def Let_def)

text \<open>
  C4. For a route whose first segment is \<open>name@version\<close> (a name without \<open>@\<close>, then
  \<open>@\<close>, then a non-empty version) the derived version is that version. For a route
  whose first segment has no \<open>@\<close> or nothing behind its \<open>@\<close>, for the empty route and
  for an undefined route the derived version is the first element of the manifest's
  \<open>cli\<close> list.
\<close>

theorem route_version:
  "(CHR ''@'' \<notin> set n \<and> v \<noteq> [] \<longrightarrow>
      version (routeInterpreter versionMeta (Some ((n @ ''@'' @ v) # ps))) = Some v)
   \<and> (CHR ''@'' \<notin> set i \<longrightarrow>
      version (routeInterpreter versionMeta (Some (i # ps))) = at0 (cli versionMeta))
   \<and> (CHR ''@'' \<notin> set n \<longrightarrow>
      version (routeInterpreter versionMeta (Some ((n @ ''@'') # ps))) = at0 (cli versionMeta))
   \<and> version (routeInterpreter versionMeta (Some [])) = at0 (cli versionMeta)
   \<and> version (routeInterpreter versionMeta None) = at0 (cli versionMeta)"
  using parseNameVersion_at [of n v] parseNameVersion_plain [of i]
    parseNameVersion_plain [of "[]"] parseNameVersion_at [of n "[]"]
  by (simp add: routeInterpreter_def interpretRoute_def at0_def Let_def)

theorem route_version_witness:
  "version (routeInterpreter \<lparr>cli = [''v1.20.1'', ''v1.20.0''], std = [''0.120.0''],
       cli_to_std = Map.empty\<rparr> (Some [''manual@v1.19.3'', ''getting_started'']))
     = Some ''v1.19.3''
   \<and> version (routeInterpreter \<lparr>cli = [''v1.20.1'', ''v1.20.0''], std = [''0.120.0''],
       cli_to_std = Map.empty\<rparr> (Some [''manual'', ''getting_started'']))
     = Some ''v1.20.1''
   \<and> version (routeInterpreter \<lparr>cli = [''v1.20.1'', ''v1.20.0''], std = [''0.120.0''],
       cli_to_std = Map.empty\<rparr> (Some [''manual@'', ''getting_started'']))
     = Some ''v1.20.1''"
  using route_version [of "''manual''" "''v1.19.3''"
      "\<lparr>cli = [''v1.20.1'', ''v1.20.0''], std = [''0.120.0''], cli_to_std = Map.empty\<rparr>"
      "[''getting_started'']" "''manual''"]
  by (simp add: at0_def)

text \<open>
  C5. When no segment follows the first one (also for the empty and the undefined
  route) the path is \<open>/introduction\<close>; otherwise it is \<open>/\<close> followed by the remaining
  segments joined with \<open>/\<close>. This holds whatever the name parser returns.
\<close>

theorem route_path:
  "(drop 1 (case rest of None \<Rightarrow> [] | Some r \<Rightarrow> r) = [] \<longrightarrow>
      path (interpretRoute parse versionMeta rest) = ''/introduction'')
   \<and> (drop 1 (case rest of None \<Rightarrow> [] | Some r \<Rightarrow> r) \<noteq> [] \<longrightarrow>
      path (interpretRoute parse versionMeta rest)
        = ''/'' @ join ''/'' (drop 1 (case rest of None \<Rightarrow> [] | Some r \<Rightarrow> r)))"
  by (simp add: interpretRoute_def Let_def)

theorem route_path_witness:
  "path (interpretRoute parseNameVersion \<lparr>cli = [''v1.20.1''], std = [''0.120.0''],
       cli_to_std = Map.empty\<rparr> (Some [''manual@v1.19.3''])) = ''/introduction''
   \<and> path (interpretRoute parseNameVersion \<lparr>cli = [''v1.20.1''], std = [''0.120.0''],
       cli_to_std = Map.empty\<rparr> (Some [''manual'', ''runtime'', ''workers'']))
     = ''/runtime/workers''"
  using route_path [of "Some [''manual@v1.19.3'']" parseNameVersion
      "\<lparr>cli = [''v1.20.1''], std = [''0.120.0''], cli_to_std = Map.empty\<rparr>"]
    route_path [of "Some [''manual'', ''runtime'', ''workers'']" parseNameVersion
      "\<lparr>cli = [''v1.20.1''], std = [''0.120.0''], cli_to_std = Map.empty\<rparr>"]
  by simp

text \<open>
  C6. When the resolved path ends in \<open>.md\<close>, the path is a stem followed by \<open>.md\<close>, and
  the render calls \<open>replace\<close> with \<open>/manual\<close>, the \<open>@version\<close> of the route and the stem;
  it returns the empty fragment and registers no hook, so no content is loaded, set or
  rendered. This holds for every state and whatever the name parser returns.
\<close>

theorem md_redirect:
  assumes "endsWith (path (interpretRoute parse versionMeta rest)) ''.md''"
  shows "path (interpretRoute parse versionMeta rest)
       = take (length (path (interpretRoute parse versionMeta rest)) - 3)
           (path (interpretRoute parse versionMeta rest)) @ ''.md''
     \<and> ManualWith parse versionMeta rest st =
         \<lparr>navigated = Some (Replace ''/[...rest]''
            (''/manual'' @ atVersion (version (interpretRoute parse versionMeta rest))
              @ take (length (path (interpretRoute parse versionMeta rest)) - 3)
                  (path (interpretRoute parse versionMeta rest)))),
          hooks = [], markup = EmptyFragment\<rparr>"
proof
  show "path (interpretRoute parse versionMeta rest)
       = take (length (path (interpretRoute parse versionMeta rest)) - 3)
           (path (interpretRoute parse versionMeta rest)) @ ''.md''"
    using assms by (rule endsWith_md_split)
  show "ManualWith parse versionMeta rest st =
         \<lparr>navigated = Some (Replace ''/[...rest]''
            (''/manual'' @ atVersion (version (interpretRoute parse versionMeta rest))
              @ take (length (path (interpretRoute parse versionMeta rest)) - 3)
                  (path (interpretRoute parse versionMeta rest)))),
          hooks = [], markup = EmptyFragment\<rparr>"
    using assms by (simp add: ManualWith_def Let_def redirectURL_def replaceMdSuffix_def)
qed

theorem md_redirect_witness:
  "ManualWith parseNameVersion \<lparr>cli = [''v1.20.1''], std = [''0.120.0''], cli_to_std = Map.empty\<rparr>
     (Some [''manual@v1.19.3'', ''getting_started'', ''installation.md''])
     (initialState\<lparr>content := Some ''stale''\<rparr>)
   = \<lparr>navigated = Some (Replace ''/[...rest]'' ''/manual@v1.19.3/getting_started/installation''),
      hooks = [], markup = EmptyFragment\<rparr>"
  using md_redirect [of parseNameVersion
      "\<lparr>cli = [''v1.20.1''], std = [''0.120.0''], cli_to_std = Map.empty\<rparr>"
      "Some [''manual@v1.19.3'', ''getting_started'', ''installation.md'']"
      "initialState\<lparr>content := Some ''stale''\<rparr>"]
  by (simp add: interpretRoute_def parseNameVersion_def at0_def endsWith_def atVersion_def)

text \<open>
  C7. The claim is that every occurrence of \<open>$CLI_VERSION\<close> is replaced by the current
  version. The code passes the version to \<open>replace\<close> as a replacement string, in which
  \<open>$&\<close> stands for the matched text: on the route \<open>/manual@$&\<close> the version is \<open>$&\<close>,
  and the content \<open>Deno $CLI_VERSION\<close> is displayed unchanged.
\<close>

theorem cli_placeholder_dollar:
  "version (routeInterpreter \<lparr>cli = [''v1.20.1''], std = [''0.120.0''], cli_to_std = Map.empty\<rparr>
      (Some [''manual@$&''])) = Some ''$&''
   \<and> markdownSource \<lparr>cli = [''v1.20.1''], std = [''0.120.0''], cli_to_std = Map.empty\<rparr>
        (Some ''$&'') ''Deno $CLI_VERSION'' = ''Deno $CLI_VERSION''
   \<and> markup (Manual \<lparr>cli = [''v1.20.1''], std = [''0.120.0''], cli_to_std = Map.empty\<rparr>
        (Some [''manual@$&'']) (initialState\<lparr>content := Some ''Deno $CLI_VERSION''\<rparr>))
     = Article \<lparr>source = ''Deno $CLI_VERSION'',
         displayURL = ''https://deno.land/manual@$&/introduction'',
         baseURL = ''https://deno.land/manual@$&'',
         prevLink = None, nextLink = None\<rparr>"
  by (simp add: routeInterpreter_def Manual_def ManualWith_def interpretRoute_def
      parseNameVersion_def at0_def endsWith_def markdownSource_def replaceAll_def
      startsWith_def stdVersion_def stdVersionWith_def jsToString_def atVersion_def jsAt_def
      initialState_def Let_def)

text \<open>
  C8. \<open>gotoVersion\<close> pushes the current path under the chosen version: \<open>/manual@v\<close>
  and the path for a non-empty version \<open>v\<close>, \<open>/manual\<close> and the path for the empty
  version; for the path \<open>/introduction\<close> these are \<open>/manual@v/introduction\<close> and
  \<open>/manual/introduction\<close>.
\<close>

theorem goto_version:
  "(v \<noteq> [] \<longrightarrow> gotoVersion p v = Push ''/[...rest]'' (''/manual@'' @ v @ p))
   \<and> gotoVersion p [] = Push ''/[...rest]'' (''/manual'' @ p)
   \<and> (v \<noteq> [] \<longrightarrow>
        gotoVersion ''/introduction'' v = Push ''/[...rest]'' (''/manual@'' @ v @ ''/introduction''))
   \<and> gotoVersion ''/introduction'' [] = Push ''/[...rest]'' ''/manual/introduction''"
  by (simp add: gotoVersion_def)

theorem goto_version_witness:
  "gotoVersion ''/introduction'' ''v1.19.3'' = Push ''/[...rest]'' ''/manual@v1.19.3/introduction''"
  using goto_version [of "''v1.19.3''" "''/introduction''"]
  by simp

text \<open>
  C9. A keypress of \<open>/\<close> or \<open>s\<close> while the overlay is closed opens it (the default
  action is prevented and the focus of the search input is scheduled, nothing else
  changes); any keypress while the overlay is open leaves the state as it is and has no
  effect.
\<close>

theorem keypress_search:
  "(\<not> isOpen st \<and> (key = ''/'' \<or> key = ''s'') \<longrightarrow>
      onPress key st = (st\<lparr>isOpen := True\<rparr>, [PreventDefault, FocusSearchInput]))
   \<and> (isOpen st \<longrightarrow> onPress key st = (st, []))"
  by (auto simp: onPress_def onOpen_def)

theorem keypress_search_witness:
  "onPress ''/'' initialState = (initialState\<lparr>isOpen := True\<rparr>, [PreventDefault, FocusSearchInput])
   \<and> onPress ''/'' (initialState\<lparr>isOpen := True\<rparr>) = (initialState\<lparr>isOpen := True\<rparr>, [])"
  using keypress_search [of initialState "''/''"]
    keypress_search [of "initialState\<lparr>isOpen := True\<rparr>" "''/''"]
  by (simp add: initialState_def)

text \<open>
  C10. When the manifest's \<open>cli\<close> list starts with a non-empty version, the version
  derived from any route, by any name parser, is a non-empty string, and it is that first
  version whenever the parser finds no version in the first segment. The branches for a
  falsy version are then not taken: the \<open>@version\<close> of the links and of the redirect is
  always present, and the version is never undefined, so the std version is never the
  one of the \<open>version === undefined\<close> branch: whatever the lookup in \<open>cli_to_std\<close>
  finds, inherited properties included, the std version is what the lookup yields for
  the version, and \<open>std[0]\<close> only when it yields nothing.
\<close>

theorem version_truthy:
  "at0 (cli versionMeta) = Some latest \<and> latest \<noteq> [] \<longrightarrow>
     (\<exists>v. version (interpretRoute parse versionMeta rest) = Some v \<and> v \<noteq> []
        \<and> version (interpretRoute parse versionMeta rest) \<noteq> None
        \<and> (snd (parse (case at0 (case rest of None \<Rightarrow> [] | Some r \<Rightarrow> r) of
                          None \<Rightarrow> [] | Some i \<Rightarrow> i)) = [] \<longrightarrow> v = latest)
        \<and> atVersion (version (interpretRoute parse versionMeta rest)) = ''@'' @ v
        \<and> redirectURL (version (interpretRoute parse versionMeta rest)) p
            = ''/manual@'' @ v @ replaceMdSuffix p
        \<and> stdVersionWith lookup std0 (version (interpretRoute parse versionMeta rest))
            = (case lookup v of None \<Rightarrow> std0 | Some x \<Rightarrow> Some x))"
  by (auto simp: interpretRoute_def Let_def atVersion_def redirectURL_def stdVersionWith_def)

theorem version_truthy_witness:
  "version (interpretRoute parseNameVersion
      \<lparr>cli = [''v1.20.1''], std = [''0.120.0''], cli_to_std = Map.empty\<rparr> (Some [''manual@'']))
     = Some ''v1.20.1''
   \<and> version (interpretRoute parseNameVersion
      \<lparr>cli = [''v1.20.1''], std = [''0.120.0''], cli_to_std = Map.empty\<rparr>
      (Some [''manual@constructor''])) = Some ''constructor''
   \<and> stdVersionWith [''constructor'' \<mapsto> JFunction ''Object''] (Some (JString ''0.120.0''))
        (version (interpretRoute parseNameVersion
          \<lparr>cli = [''v1.20.1''], std = [''0.120.0''], cli_to_std = Map.empty\<rparr>
          (Some [''manual@constructor''])))
     = Some (JFunction ''Object'')"
  using version_truthy [where versionMeta =
        "\<lparr>cli = [''v1.20.1''], std = [''0.120.0''], cli_to_std = Map.empty\<rparr>"
      and latest = "''v1.20.1''" and parse = parseNameVersion
      and rest = "Some [''manual@'']" and p = "[]"
      and lookup = "Map.empty :: string \<rightharpoonup> jsvalue"
      and ?std0.0 = "Some (JString ''0.120.0'')"]
    version_truthy [where versionMeta =
        "\<lparr>cli = [''v1.20.1''], std = [''0.120.0''], cli_to_std = Map.empty\<rparr>"
      and latest = "''v1.20.1''" and parse = parseNameVersion
      and rest = "Some [''manual@constructor'']" and p = "[]"
      and lookup = "[''constructor'' \<mapsto> JFunction ''Object'']"
      and ?std0.0 = "Some (JString ''0.120.0'')"]
  by (simp add: interpretRoute_def parseNameVersion_def at0_def)

end
